theory Spec2Isabelle
  imports Main "HOL-Library.AList"
begin

section \<open>Values, objects and errors\<close>

text \<open>
  The library is TypeScript running on a JavaScript engine. Resources, tokens and
  session state are plain objects, so they are modelled as association lists from
  property names to values; \<open>map_of\<close> reads a property, and a key that is absent reads
  as \<open>undefined\<close>. Numbers are never computed on by the code under study and are
  kept as integers.
\<close>

datatype jsval =
    JUndefined
  | JNull
  | JBool bool
  | JNum int
  | JStr string
  | JArr "jsval list"
  | JObj "(string \<times> jsval) list"

type_synonym obj = "(string \<times> jsval) list"

text \<open>
  Every \<open>throw\<close> of the source is a value. \<open>Error m\<close> is \<open>new Error(m)\<close> thrown by
  the library itself, \<open>TypeError m\<close> is raised by the engine (reading a property of
  \<open>undefined\<close>, calling something that is not a function, an invalid URL), and
  \<open>Rejection r\<close> is a failure of the session handle, a rejected promise or an
  exception, that the library lets through untouched; \<open>r\<close> is the text the engine
  gives for the rejection value when it is concatenated to a string.
  \<open>EndpointsNotFound e\<close> is
  \<^verbatim>\<open>new Error(`Endpoints not found for EMR type: ${emrType}`)\<close>; the text of the enum
  members is declared in Launcher/SmartLaunchHandler and is kept symbolic.
\<close>

datatype EMR = EPIC | CERNER | ECW | ATHENA | ATHENAPRACTICE | SMART | NONE

datatype error =
    Error string
  | TypeError string
  | Rejection string
  | EndpointsNotFound EMR
  | MalformedResourceError

text \<open>The \<open>in\<close> operator on a plain object: the key is present, whatever its value.\<close>

definition has_key :: "string \<Rightarrow> obj \<Rightarrow> bool" where
  "has_key k o' = (map_of o' k \<noteq> None)"

text \<open>
  Reading property \<open>k\<close> of a value. On \<open>undefined\<close> and \<open>null\<close> the engine throws a
  TypeError; on an object it gives the property or \<open>undefined\<close>; the other values
  have none of the properties the code asks for (\<open>state\<close>, \<open>serverUrl\<close>).
\<close>

fun get_prop :: "jsval \<Rightarrow> string \<Rightarrow> error + jsval" where
  "get_prop JUndefined k = Inl (TypeError (''Cannot read properties of undefined (reading '' @ k @ '')''))"
| "get_prop JNull k = Inl (TypeError (''Cannot read properties of null (reading '' @ k @ '')''))"
| "get_prop (JObj o') k = Inr (case map_of o' k of None \<Rightarrow> JUndefined | Some v \<Rightarrow> v)"
| "get_prop _ k = Inr JUndefined"

text \<open>Truthiness, for \<open>!x\<close>.\<close>

fun falsy :: "jsval \<Rightarrow> bool" where
  "falsy JUndefined = True"
| "falsy JNull = True"
| "falsy (JBool b) = (\<not> b)"
| "falsy (JNum n) = (n = 0)"
| "falsy (JStr s) = (s = [])"
| "falsy (JArr _) = False"
| "falsy (JObj _) = False"

section \<open>Vendor identity: \<open>getEMRType\<close> of Client/utils.ts\<close>

text \<open>
  \<open>String.prototype.includes\<close>: the argument occurs as a contiguous run of
  characters. The six substrings searched for are ASCII, for which searching bytes
  and searching UTF-16 code units agree.
\<close>

fun startsWith :: "string \<Rightarrow> string \<Rightarrow> bool" where
  "startsWith s [] = True"
| "startsWith [] (p # ps) = False"
| "startsWith (c # cs) (p # ps) = (c = p \<and> startsWith cs ps)"

fun str_includes :: "string \<Rightarrow> string \<Rightarrow> bool" where
  "str_includes [] sub = (sub = [])"
| "str_includes (c # cs) sub = (startsWith (c # cs) sub \<or> str_includes cs sub)"

definition EMR_MAPPING :: "(string \<times> EMR) list" where
  "EMR_MAPPING =
    [(''cerner'', CERNER),
     (''smarthealthit'', SMART),
     (''epic'', EPIC),
     (''ecw'', ECW),
     (''platform.athenahealth.com'', ATHENA),
     (''fhirapi.athenahealth.com'', ATHENAPRACTICE)]"

text \<open>
  The \<open>for ... of EMR_MAPPING\<close> loop: the first entry whose substring the test
  \<open>inc\<close> accepts decides; \<open>None\<close> when the loop runs to its end.
\<close>

fun first_match :: "(string \<Rightarrow> bool) \<Rightarrow> (string \<times> EMR) list \<Rightarrow> EMR option" where
  "first_match inc [] = None"
| "first_match inc ((substring, emr) # rest) =
     (if inc substring then Some emr else first_match inc rest)"

text \<open>
  \<open>serverUrl.includes(substring)\<close> as the engine dispatches it: on a string the
  substring search, on an array the membership test of \<open>Array.prototype.includes\<close>,
  and a TypeError on a value with no such method. By its type \<open>serverUrl\<close> is a
  string.
\<close>

fun includes_of :: "jsval \<Rightarrow> error + (string \<Rightarrow> bool)" where
  "includes_of (JStr url) = Inr (str_includes url)"
| "includes_of (JArr xs) = Inr (\<lambda>substring. JStr substring \<in> set xs)"
| "includes_of _ = Inl (TypeError ''serverUrl.includes is not a function'')"

text \<open>
  \<open>isClient\<close> evaluates \<open>input.state.serverUrl !== undefined\<close>: two property reads,
  the first of which is not guarded.
\<close>

definition isClient :: "obj \<Rightarrow> error + bool" where
  "isClient input =
     (case get_prop (JObj input) ''state'' of
        Inl e \<Rightarrow> Inl e
      | Inr st \<Rightarrow>
          (case get_prop st ''serverUrl'' of
             Inl e \<Rightarrow> Inl e
           | Inr u \<Rightarrow> Inr (u \<noteq> JUndefined)))"

definition getEMRType :: "obj \<Rightarrow> error + EMR" where
  "getEMRType clientOrToken =
     (case isClient clientOrToken of
        Inl e \<Rightarrow> Inl e
      | Inr True \<Rightarrow>
          (case get_prop (JObj clientOrToken) ''state'' of
             Inl e \<Rightarrow> Inl e
           | Inr st \<Rightarrow>
               (case get_prop st ''serverUrl'' of
                  Inl e \<Rightarrow> Inl e
                | Inr serverUrl \<Rightarrow>
                    (case includes_of serverUrl of
                       Inl e \<Rightarrow> Inl e
                     | Inr inc \<Rightarrow>
                         (case first_match inc EMR_MAPPING of
                            Some emr \<Rightarrow> Inr emr
                          | None \<Rightarrow> Inr NONE))))
      | Inr False \<Rightarrow>
          (if has_key ''epic.eci'' clientOrToken then Inr EPIC else Inr NONE))"

section \<open>Endpoint registry: \<open>constructEndpoints\<close>, \<open>getEndpointsForEmr\<close>\<close>

record 'u EMR_ENDPOINTS =
  token :: 'u
  r4 :: 'u
  auth :: 'u

text \<open>
  \<open>new URL(s)\<close> is the platform's constructor, not code of the library. What is fixed
  here is the one fact the registry depends on: an absolute URL starts with a scheme
  that ends in a colon, so a string with no colon is rejected with a TypeError when no
  base is given. Everything else the parser does is the parameter \<open>parse\<close>.
\<close>

definition new_URL :: "(string \<Rightarrow> error + 'u) \<Rightarrow> string \<Rightarrow> error + 'u" where
  "new_URL parse s =
     (if CHR '':'' \<in> set s then parse s else Inl (TypeError ''Invalid URL''))"

text \<open>
  The three endpoint arguments are \<open>string | undefined\<close>; \<open>None\<close> is \<open>undefined\<close>.
  The three checks come first, in the order token, r4, authorize; the URLs are built
  afterwards, in the order of the object literal.
\<close>

definition constructEndpoints ::
  "(string \<Rightarrow> error + 'u) \<Rightarrow> string option \<Rightarrow> string option \<Rightarrow> string option
     \<Rightarrow> error + 'u EMR_ENDPOINTS" where
  "constructEndpoints parse tokenEP r4EP authorizeEP =
     (case tokenEP of
        None \<Rightarrow> Inl (Error ''Token Endpoint not defined'')
      | Some t \<Rightarrow>
     (case r4EP of
        None \<Rightarrow> Inl (Error ''R4 Endpoint not defined'')
      | Some r \<Rightarrow>
     (case authorizeEP of
        None \<Rightarrow> Inl (Error ''Auth Endpoint not defined'')
      | Some a \<Rightarrow>
     (case new_URL parse t of
        Inl e \<Rightarrow> Inl e
      | Inr tu \<Rightarrow>
     (case new_URL parse r of
        Inl e \<Rightarrow> Inl e
      | Inr ru \<Rightarrow>
     (case new_URL parse a of
        Inl e \<Rightarrow> Inl e
      | Inr au \<Rightarrow> Inr \<lparr>token = tu, r4 = ru, auth = au\<rparr>))))))"

text \<open>
  The static members \<open>TOKEN_ENDPOINT\<close>, \<open>R4_ENDPOINT\<close>, \<open>AUTHORIZE_ENDPOINT\<close> that
  BaseClient declares as \<open>string | undefined\<close> and every vendor class sets.
\<close>

record endpoint_constants =
  TOKEN_ENDPOINT :: "string option"
  R4_ENDPOINT :: "string option"
  AUTHORIZE_ENDPOINT :: "string option"

definition CernerClient_constants :: endpoint_constants where
  "CernerClient_constants =
     \<lparr>TOKEN_ENDPOINT = Some ''https://authorization.cerner.com/tenants/ec2458f2-1e24-41c8-b71b-0e701af7583d/protocols/oauth2/profiles/smart-v1/token'',
      R4_ENDPOINT = Some ''https://fhir-ehr-code.cerner.com/r4/ec2458f2-1e24-41c8-b71b-0e701af7583d'',
      AUTHORIZE_ENDPOINT = Some ''https://authorization.cerner.com/tenants/ec2458f2-1e24-41c8-b71b-0e701af7583d/protocols/oauth2/profiles/smart-v1/personas/provider/authorize''\<rparr>"

text \<open>
  Modelled from the spec: the static \<open>getEndpoints\<close> of EpicClient, ECWClient,
  AthenaClient and AthenaPracticeClient, whose files are not among the sources.
  Section 4.2 says that each vendor variant exposes its own static token, resource and
  authorize URLs; the one vendor class at hand, CernerClient, passes its three static
  members to \<open>constructEndpoints\<close>, and the same is written here for the others.
  Their constants are the parameter \<open>statics\<close> of \<open>getEndpointsForEmr\<close>.
\<close>

definition getEndpoints ::
  "(string \<Rightarrow> error + 'u) \<Rightarrow> endpoint_constants \<Rightarrow> error + 'u EMR_ENDPOINTS" where
  "getEndpoints parse c =
     constructEndpoints parse (TOKEN_ENDPOINT c) (R4_ENDPOINT c) (AUTHORIZE_ENDPOINT c)"

definition getEndpointsForEmr ::
  "(string \<Rightarrow> error + 'u) \<Rightarrow> (EMR \<Rightarrow> endpoint_constants) \<Rightarrow> EMR
     \<Rightarrow> error + 'u EMR_ENDPOINTS" where
  "getEndpointsForEmr parse statics emrType =
     (case emrType of
        EPIC \<Rightarrow> getEndpoints parse (statics EPIC)
      | CERNER \<Rightarrow> getEndpoints parse CernerClient_constants
      | ECW \<Rightarrow> getEndpoints parse (statics ECW)
      | ATHENAPRACTICE \<Rightarrow> getEndpoints parse (statics ATHENAPRACTICE)
      | ATHENA \<Rightarrow> getEndpoints parse (statics ATHENA)
      | SMART \<Rightarrow> Inl (EndpointsNotFound emrType)
      | NONE \<Rightarrow> Inl (EndpointsNotFound emrType))"

section \<open>The session handle and the context hydrator of BaseClient\<close>

text \<open>
  The session handle \<open>fhirClientDefault\<close> belongs to the external FHIR client. Of it
  the library reads \<open>state.serverUrl\<close>, the identifiers \<open>patient.id\<close>,
  \<open>encounter.id\<close> and \<open>user.id\<close> (a string or nothing), \<open>user.read()\<close>, and it calls
  \<open>create(resource, options)\<close>.
  \<open>user.read()\<close> is awaited at once, so an exception it throws and a promise it
  rejects reach the caller in the same way: \<open>Inl r\<close> is either, with \<open>r\<close> the text of
  the value, and \<open>Inr\<close> the resource the promise resolves to.
  The session's \<open>create\<close> is not awaited at once: handlers are attached to the
  promise it returns. So its three outcomes are kept apart: it throws before it
  returns a promise, it returns a promise that rejects, or it returns a promise that
  resolves to the response.
\<close>

datatype 'a outcome = Throws string | Rejects string | Resolves 'a

record SubClient =
  serverUrl :: string
  patient_id :: "string option"
  encounter_id :: "string option"
  user_id :: "string option"
  user_read :: "string + obj"
  create_op :: "obj \<Rightarrow> obj \<Rightarrow> obj outcome"

text \<open>\<open>if (!id) throw new Error("id not found")\<close>: nothing and the empty string are falsy.\<close>

definition getIDfromObject :: "string option \<Rightarrow> error + string" where
  "getIDfromObject objectWithId =
     (case objectWithId of
        None \<Rightarrow> Inl (Error ''id not found'')
      | Some i \<Rightarrow> if i = [] then Inl (Error ''id not found'') else Inr i)"

definition createPatientSubject :: "SubClient \<Rightarrow> error + obj" where
  "createPatientSubject s =
     (case getIDfromObject (patient_id s) of
        Inl e \<Rightarrow> Inl e
      | Inr patientID \<Rightarrow>
          Inr [(''subject'', JObj [(''reference'', JStr (''Patient/'' @ patientID))])])"

definition createEncounterReference :: "SubClient \<Rightarrow> error + jsval" where
  "createEncounterReference s =
     (case getIDfromObject (encounter_id s) of
        Inl e \<Rightarrow> Inl e
      | Inr encounterID \<Rightarrow> Inr (JObj [(''reference'', JStr (''Encounter/'' @ encounterID))]))"

definition createEncounterReferenceArray :: "SubClient \<Rightarrow> error + jsval" where
  "createEncounterReferenceArray s =
     (case createEncounterReference s of
        Inl e \<Rightarrow> Inl e
      | Inr ref \<Rightarrow> Inr (JArr [ref]))"

definition createPeriod :: "string \<Rightarrow> jsval" where
  "createPeriod start = JObj [(''start'', JStr start), (''end'', JStr start)]"

text \<open>\<open>now\<close> is what \<open>new Date().toISOString()\<close> gives when \<open>createContext\<close> runs.\<close>

definition createContext :: "string \<Rightarrow> SubClient \<Rightarrow> error + obj" where
  "createContext now s =
     (case createEncounterReferenceArray s of
        Inl e \<Rightarrow> Inl e
      | Inr encounter \<Rightarrow>
          Inr [(''context'', JObj [(''encounter'', encounter), (''period'', createPeriod now)])])"

definition createReferenceArrayAuthor :: "SubClient \<Rightarrow> error + obj" where
  "createReferenceArrayAuthor s =
     (case getIDfromObject (user_id s) of
        Inl e \<Rightarrow> Inl e
      | Inr userID \<Rightarrow>
          Inr [(''author'', JArr [JObj [(''reference'', JStr (''Practitioner/'' @ userID))]])])"

text \<open>
  Object spread \<open>{...target, ...source}\<close>: the properties of \<open>source\<close> are set on a
  copy of \<open>target\<close> one after the other; a key already there keeps its place and
  takes the new value, a new key goes to the end. Values are immutable here, so the
  copy of an object is the same list.
\<close>

definition spread :: "obj \<Rightarrow> obj \<Rightarrow> obj" where
  "spread target source = fold (\<lambda>(k, v). AList.update k v) source target"

text \<open>
  \<open>hydrateResource\<close>: the two conditional spreads are evaluated left to right, and
  the guard of the second is on the key \<open>encounter\<close> while the fragment it adds has
  the key \<open>context\<close>.
\<close>

definition hydrateResource :: "string \<Rightarrow> SubClient \<Rightarrow> obj \<Rightarrow> error + obj" where
  "hydrateResource now s resource =
     (case (if has_key ''subject'' resource then Inr [] else createPatientSubject s) of
        Inl e \<Rightarrow> Inl e
      | Inr subjectFragment \<Rightarrow>
     (case (if has_key ''encounter'' resource then Inr [] else createContext now s) of
        Inl e \<Rightarrow> Inl e
      | Inr contextFragment \<Rightarrow>
          Inr (spread (spread resource subjectFragment) contextFragment)))"

text \<open>
  CernerClient overrides \<open>hydrateResource\<close> with a method of two parameters: the
  hydration of BaseClient first, then the \<open>author\<close> fragment unless the second
  argument has the key \<open>author\<close>. \<open>r4Resource\<close> is \<open>None\<close> when the caller passes one
  argument only, and the \<open>in\<close> operator on \<open>undefined\<close> is a TypeError.
\<close>

definition CernerClient_hydrateResource ::
  "string \<Rightarrow> SubClient \<Rightarrow> obj \<Rightarrow> obj option \<Rightarrow> error + obj" where
  "CernerClient_hydrateResource now s fhirClientResource r4Resource =
     (case hydrateResource now s fhirClientResource of
        Inl e \<Rightarrow> Inl e
      | Inr baseFragment \<Rightarrow>
     (case r4Resource of
        None \<Rightarrow> Inl (TypeError ''Cannot use in operator to search for author in undefined'')
      | Some r \<Rightarrow>
     (case (if has_key ''author'' r then Inr [] else createReferenceArrayAuthor s) of
        Inl e \<Rightarrow> Inl e
      | Inr authorFragment \<Rightarrow> Inr (spread baseFragment authorFragment))))"

section \<open>The resource transformer\<close>

text \<open>
  Modelled from the spec: \<open>Transformer.toFhirClientType\<close> and
  \<open>Transformer.toR4FhirType\<close> of Resource/transformer, a file that is not among the
  sources; only their calls in BaseClient are. Section 4.3 describes both directions
  as a structural conversion that preserves every field and fails with
  MalformedResourceError when the input has no \<open>resourceType\<close>.
\<close>

definition toFhirClientType :: "obj \<Rightarrow> error + obj" where
  "toFhirClientType originalResource =
     (if has_key ''resourceType'' originalResource then Inr originalResource
      else Inl MalformedResourceError)"

definition toR4FhirType :: "obj \<Rightarrow> error + obj" where
  "toR4FhirType originalResource =
     (if has_key ''resourceType'' originalResource then Inr originalResource
      else Inl MalformedResourceError)"

definition roundTrip :: "obj \<Rightarrow> error + obj" where
  "roundTrip r =
     (case toFhirClientType r of Inl e \<Rightarrow> Inl e | Inr sessionShape \<Rightarrow> toR4FhirType sessionShape)"

section \<open>\<open>create\<close> and \<open>getPractitionerRead\<close> of BaseClient\<close>

text \<open>
  The property \<open>resourceType\<close> of a resource; by the types of the FHIR client it is a
  string when it is there, and on strings \<open>==\<close> is equality.
\<close>

definition resourceType :: "obj \<Rightarrow> jsval" where
  "resourceType r = (case map_of r ''resourceType'' of None \<Rightarrow> JUndefined | Some v \<Rightarrow> v)"

text \<open>
  The \<open>then\<close> handler of \<open>create\<close>: a response with a falsy \<open>resourceType\<close> is
  printed to the console, which is left out here, and throws
  \<^verbatim>\<open>new Error(`Resource ${resource}, must have a resource type.`)\<close>. The handler's
  failure is a rejection like any other, so its text is what the following \<open>catch\<close>
  receives: the engine prints an Error as its name, a colon and its message, and a
  plain object inside a template as \<open>[object Object]\<close>.
\<close>

definition checkResourceType :: "obj \<Rightarrow> string + obj" where
  "checkResourceType response =
     (if falsy (resourceType response)
      then Inl ''Error: Resource [object Object], must have a resource type.''
      else Inr response)"

text \<open>
  \<open>createOptions\<close> is the second argument \<^verbatim>\<open>{...(additionalHeaders ? additionalHeaders : {})}\<close>
  of the session's \<open>create\<close>: a copy of the headers given, or the empty object.
  \<open>create_with\<close> is the method \<open>create\<close> as the source writes it, with the two
  directions of the transformer as parameters and with \<open>this.hydrateResource\<close>, which
  a vendor class may override, as the parameter \<open>hydrate\<close>. The result comes with the
  list of the calls made to the session's \<open>create\<close>, each with the resource and the
  options it was given; \<open>additionalHeaders\<close> is optional.
  The \<open>then\<close> and \<open>catch\<close> handlers hang on the promise the session's \<open>create\<close>
  returns. The \<open>catch\<close> handler wraps every rejection of that chain, the session's or
  the \<open>then\<close> handler's, as \<^verbatim>\<open>new Error("It failed with:" + reason)\<close>. An exception
  thrown by the call itself never reaches the handlers: it ends the method, whose
  promise rejects with the exception as it is.
  \<open>create\<close> is the method on a client that keeps the \<open>hydrateResource\<close> of BaseClient,
  and \<open>CernerClient_create\<close> the method on a CernerClient, where the one argument
  that \<open>create\<close> passes leaves \<open>r4Resource\<close> undefined.
\<close>

definition createOptions :: "obj option \<Rightarrow> obj" where
  "createOptions additionalHeaders = (case additionalHeaders of None \<Rightarrow> [] | Some h \<Rightarrow> h)"

definition create_with ::
  "(string \<Rightarrow> SubClient \<Rightarrow> obj \<Rightarrow> error + obj)
     \<Rightarrow> (obj \<Rightarrow> error + obj) \<Rightarrow> (obj \<Rightarrow> error + obj) \<Rightarrow> string \<Rightarrow> SubClient \<Rightarrow> obj \<Rightarrow> obj option
     \<Rightarrow> (error + obj) \<times> (obj \<times> obj) list" where
  "create_with hydrate toFhirClient toR4 now s resource additionalHeaders =
     (case toFhirClient resource of
        Inl e \<Rightarrow> (Inl e, [])
      | Inr transformedResource \<Rightarrow>
     (case hydrate now s transformedResource of
        Inl e \<Rightarrow> (Inl e, [])
      | Inr hydratedResource \<Rightarrow>
          (let options = createOptions additionalHeaders;
               calls = [(hydratedResource, options)]
           in case create_op s hydratedResource options of
                Throws thrown \<Rightarrow> (Inl (Rejection thrown), calls)
              | Rejects reason \<Rightarrow> (Inl (Error (''It failed with:'' @ reason)), calls)
              | Resolves response \<Rightarrow>
                  (case checkResourceType response of
                     Inl reason \<Rightarrow> (Inl (Error (''It failed with:'' @ reason)), calls)
                   | Inr resultResource \<Rightarrow> (toR4 resultResource, calls)))))"

definition create ::
  "(obj \<Rightarrow> error + obj) \<Rightarrow> (obj \<Rightarrow> error + obj) \<Rightarrow> string \<Rightarrow> SubClient \<Rightarrow> obj \<Rightarrow> obj option
     \<Rightarrow> (error + obj) \<times> (obj \<times> obj) list" where
  "create toFhirClient toR4 now s resource additionalHeaders =
     create_with hydrateResource toFhirClient toR4 now s resource additionalHeaders"

definition CernerClient_create ::
  "(obj \<Rightarrow> error + obj) \<Rightarrow> (obj \<Rightarrow> error + obj) \<Rightarrow> string \<Rightarrow> SubClient \<Rightarrow> obj \<Rightarrow> obj option
     \<Rightarrow> (error + obj) \<times> (obj \<times> obj) list" where
  "CernerClient_create toFhirClient toR4 now s resource additionalHeaders =
     create_with (\<lambda>now' s' fhirClientResource. CernerClient_hydrateResource now' s' fhirClientResource None)
       toFhirClient toR4 now s resource additionalHeaders"

definition getUserRead :: "SubClient \<Rightarrow> error + obj" where
  "getUserRead s = (case user_read s of Inl r \<Rightarrow> Inl (Rejection r) | Inr user \<Rightarrow> Inr user)"

definition isPractitioner :: "obj \<Rightarrow> bool" where
  "isPractitioner user = (resourceType user = JStr ''Practitioner'')"

definition getPractitionerRead :: "(obj \<Rightarrow> error + obj) \<Rightarrow> SubClient \<Rightarrow> error + obj" where
  "getPractitionerRead toR4 s =
     (case getUserRead s of
        Inl e \<Rightarrow> Inl e
      | Inr user \<Rightarrow>
          if isPractitioner user then toR4 user
          else Inl (Error ''User is Not a Practitioner''))"

section \<open>The client factory\<close>

text \<open>
  ClientFactory has a \<open>getEMRType\<close> of its own, with three substrings only. The two
  vendor clients it builds are BaseClient subclasses bound to the session.
\<close>

datatype vendor_client = EpicClient SubClient | CernerClient SubClient

definition ClientFactory_getEMRType :: "SubClient \<Rightarrow> EMR" where
  "ClientFactory_getEMRType client =
     (if str_includes (serverUrl client) ''cerner'' then CERNER
      else if str_includes (serverUrl client) ''smarthealthit'' then SMART
      else if str_includes (serverUrl client) ''epic'' then EPIC
      else NONE)"

text \<open>\<open>ready\<close> is the outcome of \<open>FHIR.oauth2.ready()\<close>, a rejection or the session.\<close>

definition createEMRClient :: "string + SubClient \<Rightarrow> error + vendor_client" where
  "createEMRClient ready =
     (case ready of
        Inl r \<Rightarrow> Inl (Rejection r)
      | Inr defaultFhirClient \<Rightarrow>
          (case ClientFactory_getEMRType defaultFhirClient of
             EPIC \<Rightarrow> Inr (EpicClient defaultFhirClient)
           | CERNER \<Rightarrow> Inr (CernerClient defaultFhirClient)
           | SMART \<Rightarrow> Inr (EpicClient defaultFhirClient)
           | NONE \<Rightarrow> Inr (EpicClient defaultFhirClient)
           | _ \<Rightarrow> Inr (EpicClient defaultFhirClient)))"

section \<open>Sessions to evaluate on\<close>

text \<open>
  A session with all three identifiers, whose user is a practitioner and whose
  \<open>create\<close> answers with the resource it was sent, one whose \<open>create\<close> returns a
  promise that rejects, and one whose \<open>create\<close> throws before it returns a promise.
\<close>

definition example_session :: SubClient where
  "example_session =
     \<lparr>serverUrl = ''https://launch.smarthealthit.org/v/r4/fhir'',
      patient_id = Some ''p1'',
      encounter_id = Some ''e1'',
      user_id = Some ''u1'',
      user_read = Inr [(''resourceType'', JStr ''Practitioner''), (''id'', JStr ''u1'')],
      create_op = (\<lambda>resource options. Resolves resource)\<rparr>"



section \<open>Properties of vendor identity\<close>

lemma startsWith_iff: "startsWith s p \<longleftrightarrow> (\<exists>post. s = p @ post)"
  by (induction s p rule: startsWith.induct) auto

lemma includes_iff: "str_includes s sub \<longleftrightarrow> (\<exists>pre post. s = pre @ sub @ post)"
proof (induction s)
  case Nil
  then show ?case by auto
next
  case (Cons c cs)
  show ?case
  proof
    assume "str_includes (c # cs) sub"
    then consider "startsWith (c # cs) sub" | "str_includes cs sub" by auto
    then show "\<exists>pre post. c # cs = pre @ sub @ post"
    proof cases
      case 1
      then obtain post where "c # cs = sub @ post" by (auto simp: startsWith_iff)
      then have "c # cs = [] @ sub @ post" by simp
      then show ?thesis by blast
    next
      case 2
      then obtain pre post where "cs = pre @ sub @ post" using Cons.IH by blast
      then have "c # cs = (c # pre) @ sub @ post" by simp
      then show ?thesis by blast
    qed
  next
    assume "\<exists>pre post. c # cs = pre @ sub @ post"
    then obtain pre post where eq: "c # cs = pre @ sub @ post" by blast
    show "str_includes (c # cs) sub"
    proof (cases pre)
      case Nil
      with eq have "startsWith (c # cs) sub" by (auto simp: startsWith_iff)
      then show ?thesis by simp
    next
      case (Cons d pre')
      with eq have "cs = pre' @ sub @ post" by simp
      then have "str_includes cs sub" using Cons.IH by blast
      then show ?thesis by simp
    qed
  qed
qed

lemma getEMRType_string_url:
  assumes "map_of c ''state'' = Some (JObj st)"
    and "map_of st ''serverUrl'' = Some (JStr url)"
  shows "getEMRType c =
    Inr (case first_match (str_includes url) EMR_MAPPING of Some emr \<Rightarrow> emr | None \<Rightarrow> NONE)"
  using assms by (simp add: getEMRType_def isClient_def split: option.splits)

text \<open>
  Claim C1. For a session handle, that is an object whose \<open>state.serverUrl\<close> is a
  string, \<open>getEMRType\<close> returns the tag of the first entry of the table, in the order
  cerner, smarthealthit, epic, ecw, platform.athenahealth.com,
  fhirapi.athenahealth.com, whose substring occurs in the URL, and \<open>NONE\<close> when none
  of the six occurs.
\<close>

theorem getEMRType_first_match_wins:
  assumes "map_of c ''state'' = Some (JObj st)"
    and "map_of st ''serverUrl'' = Some (JStr url)"
  shows "getEMRType c = Inr
    (if (\<exists>pre post. url = pre @ ''cerner'' @ post) then CERNER
     else if (\<exists>pre post. url = pre @ ''smarthealthit'' @ post) then SMART
     else if (\<exists>pre post. url = pre @ ''epic'' @ post) then EPIC
     else if (\<exists>pre post. url = pre @ ''ecw'' @ post) then ECW
     else if (\<exists>pre post. url = pre @ ''platform.athenahealth.com'' @ post) then ATHENA
     else if (\<exists>pre post. url = pre @ ''fhirapi.athenahealth.com'' @ post) then ATHENAPRACTICE
     else NONE)"
proof -
  have "first_match (str_includes url) EMR_MAPPING =
    (if str_includes url ''cerner'' then Some CERNER
     else if str_includes url ''smarthealthit'' then Some SMART
     else if str_includes url ''epic'' then Some EPIC
     else if str_includes url ''ecw'' then Some ECW
     else if str_includes url ''platform.athenahealth.com'' then Some ATHENA
     else if str_includes url ''fhirapi.athenahealth.com'' then Some ATHENAPRACTICE
     else None)"
    by (simp add: EMR_MAPPING_def)
  then show ?thesis
    unfolding getEMRType_string_url [OF assms] includes_iff by simp
qed

theorem getEMRType_first_match_wins_witness:
  "map_of [(''state'', JObj [(''serverUrl'', JStr ''https://epic.cerner.test/r4'')])] ''state''
      = Some (JObj [(''serverUrl'', JStr ''https://epic.cerner.test/r4'')])
   \<and> map_of [(''serverUrl'', JStr ''https://epic.cerner.test/r4'')] ''serverUrl''
      = Some (JStr ''https://epic.cerner.test/r4'')
   \<and> getEMRType [(''state'', JObj [(''serverUrl'', JStr ''https://epic.cerner.test/r4'')])]
      = Inr CERNER"
proof -
  have occurs: "\<exists>pre post. ''https://epic.cerner.test/r4'' = pre @ ''cerner'' @ post"
    unfolding includes_iff [symmetric] by simp
  show ?thesis
    using getEMRType_first_match_wins
      [of "[(''state'', JObj [(''serverUrl'', JStr ''https://epic.cerner.test/r4'')])]"
          "[(''serverUrl'', JStr ''https://epic.cerner.test/r4'')]"
          "''https://epic.cerner.test/r4''"] occurs
    by simp
qed

text \<open>
  A token has no \<open>serverUrl\<close>. When it has a \<open>state\<close> object all the same, the branch
  for tokens is reached and the claim key \<open>epic.eci\<close> decides between \<open>EPIC\<close> and
  \<open>NONE\<close>.
\<close>

lemma getEMRType_state_without_serverUrl:
  assumes "map_of c ''state'' = Some (JObj st)"
    and "map_of st ''serverUrl'' = None"
  shows "getEMRType c = Inr (if has_key ''epic.eci'' c then EPIC else NONE)"
  using assms by (simp add: getEMRType_def isClient_def)

text \<open>
  When the object has no \<open>state\<close> at all, which is how a decoded token looks,
  \<open>isClient\<close> reads \<open>serverUrl\<close> of \<open>undefined\<close> and the engine throws before the
  claim key is looked at.
\<close>

lemma getEMRType_without_state:
  assumes "map_of c ''state'' = None"
  shows "getEMRType c = Inl (TypeError ''Cannot read properties of undefined (reading serverUrl)'')"
  using assms by (simp add: getEMRType_def isClient_def)

text \<open>
  Claim C6. A token-like input that carries the Epic claim key should resolve to
  \<open>EPIC\<close>, and one without it to \<open>NONE\<close>, with no error raised. The code evaluated on
  the token \<open>{client_id: "abc", "epic.eci": "urn:epic:x"}\<close> raises a TypeError
  instead: the test that tells a session from a token reads \<open>input.state.serverUrl\<close>,
  and a token has no \<open>state\<close>.
\<close>

theorem getEMRType_token_raises:
  "getEMRType [(''client_id'', JStr ''abc''), (''epic.eci'', JStr ''urn:epic:x'')]
     = Inl (TypeError ''Cannot read properties of undefined (reading serverUrl)'')"
  by (simp add: getEMRType_def isClient_def)

section \<open>Properties of the endpoint registry\<close>

lemma constructEndpoints_all_defined:
  "constructEndpoints parse (Some t) (Some r) (Some a) =
     (case new_URL parse t of
        Inl e \<Rightarrow> Inl e
      | Inr tu \<Rightarrow>
     (case new_URL parse r of
        Inl e \<Rightarrow> Inl e
      | Inr ru \<Rightarrow>
     (case new_URL parse a of
        Inl e \<Rightarrow> Inl e
      | Inr au \<Rightarrow> Inr \<lparr>token = tu, r4 = ru, auth = au\<rparr>)))"
  by (simp add: constructEndpoints_def)

text \<open>
  Claim C8, as it is stated, says that \<open>constructEndpoints\<close> returns the triple
  whenever its three arguments are defined. It fails at three defined arguments that
  are not URLs: for three empty strings the three checks pass and the first
  \<open>new URL("")\<close> throws a TypeError.
\<close>

theorem constructEndpoints_empty_strings:
  "constructEndpoints Inr (Some '''') (Some '''') (Some '''') = Inl (TypeError ''Invalid URL'')"
  by (simp add: constructEndpoints_def new_URL_def)

text \<open>
  Claim C8, amended. When an argument is undefined \<open>constructEndpoints\<close> fails with the
  error that names the first undefined one in the order token, r4, authorize, before
  any URL is built. When all three are defined and the URL constructor accepts each
  of the three strings, it returns the triple \<open>{token, r4, auth}\<close> of the three URLs.
\<close>

theorem constructEndpoints_validates:
  "(tokenEP = None \<longrightarrow>
      constructEndpoints parse tokenEP r4EP authorizeEP = Inl (Error ''Token Endpoint not defined''))
   \<and> (tokenEP \<noteq> None \<and> r4EP = None \<longrightarrow>
      constructEndpoints parse tokenEP r4EP authorizeEP = Inl (Error ''R4 Endpoint not defined''))
   \<and> (tokenEP \<noteq> None \<and> r4EP \<noteq> None \<and> authorizeEP = None \<longrightarrow>
      constructEndpoints parse tokenEP r4EP authorizeEP = Inl (Error ''Auth Endpoint not defined''))
   \<and> (tokenEP = Some t \<and> r4EP = Some r \<and> authorizeEP = Some a
        \<and> new_URL parse t = Inr tu \<and> new_URL parse r = Inr ru \<and> new_URL parse a = Inr au \<longrightarrow>
      constructEndpoints parse tokenEP r4EP authorizeEP = Inr \<lparr>token = tu, r4 = ru, auth = au\<rparr>)"
proof (intro conjI impI)
  assume "tokenEP = None"
  then show "constructEndpoints parse tokenEP r4EP authorizeEP = Inl (Error ''Token Endpoint not defined'')"
    by (simp add: constructEndpoints_def)
next
  assume "tokenEP \<noteq> None \<and> r4EP = None"
  then show "constructEndpoints parse tokenEP r4EP authorizeEP = Inl (Error ''R4 Endpoint not defined'')"
    by (auto simp: constructEndpoints_def)
next
  assume "tokenEP \<noteq> None \<and> r4EP \<noteq> None \<and> authorizeEP = None"
  then show "constructEndpoints parse tokenEP r4EP authorizeEP = Inl (Error ''Auth Endpoint not defined'')"
    by (auto simp: constructEndpoints_def)
next
  assume "tokenEP = Some t \<and> r4EP = Some r \<and> authorizeEP = Some a
        \<and> new_URL parse t = Inr tu \<and> new_URL parse r = Inr ru \<and> new_URL parse a = Inr au"
  then show "constructEndpoints parse tokenEP r4EP authorizeEP = Inr \<lparr>token = tu, r4 = ru, auth = au\<rparr>"
    by (simp add: constructEndpoints_all_defined)
qed

theorem constructEndpoints_validates_witness:
  "constructEndpoints Inr None (Some ''https://fhir.test/r4'') None
      = Inl (Error ''Token Endpoint not defined'')
   \<and> constructEndpoints Inr (Some ''https://auth.test/token'') None None
      = Inl (Error ''R4 Endpoint not defined'')
   \<and> constructEndpoints Inr (Some ''https://auth.test/token'') (Some ''https://fhir.test/r4'') None
      = Inl (Error ''Auth Endpoint not defined'')
   \<and> new_URL Inr ''https://auth.test/token'' = Inr ''https://auth.test/token''
   \<and> new_URL Inr ''https://fhir.test/r4'' = Inr ''https://fhir.test/r4''
   \<and> new_URL Inr ''https://auth.test/authorize'' = Inr ''https://auth.test/authorize''
   \<and> constructEndpoints Inr (Some ''https://auth.test/token'') (Some ''https://fhir.test/r4'')
        (Some ''https://auth.test/authorize'')
      = Inr \<lparr>token = ''https://auth.test/token'', r4 = ''https://fhir.test/r4'',
             auth = ''https://auth.test/authorize''\<rparr>"
  using
    constructEndpoints_validates
      [of None Inr "Some ''https://fhir.test/r4''" None]
    constructEndpoints_validates
      [of "Some ''https://auth.test/token''" Inr None None]
    constructEndpoints_validates
      [of "Some ''https://auth.test/token''" Inr "Some ''https://fhir.test/r4''" None]
    constructEndpoints_validates
      [of "Some ''https://auth.test/token''" Inr "Some ''https://fhir.test/r4''"
          "Some ''https://auth.test/authorize''"
          "''https://auth.test/token''" "''https://fhir.test/r4''" "''https://auth.test/authorize''"
          "''https://auth.test/token''" "''https://fhir.test/r4''" "''https://auth.test/authorize''"]
  by (simp add: new_URL_def)

text \<open>
  Claim C4. The lookup for \<open>SMART\<close> and for \<open>NONE\<close> fails with the error
  "Endpoints not found for EMR type", whatever the constants of the vendors are: there
  is no default triple. The lookup for \<open>EPIC\<close> depends on nothing but the three static
  constants of EpicClient: when they are defined and are URLs it returns the triple
  built from them, the same at every call.
\<close>

theorem getEndpointsForEmr_lookup:
  "getEndpointsForEmr parse statics SMART = Inl (EndpointsNotFound SMART)
   \<and> getEndpointsForEmr parse statics NONE = Inl (EndpointsNotFound NONE)
   \<and> (TOKEN_ENDPOINT (statics EPIC) = Some t \<and> R4_ENDPOINT (statics EPIC) = Some r
        \<and> AUTHORIZE_ENDPOINT (statics EPIC) = Some a
        \<and> new_URL parse t = Inr tu \<and> new_URL parse r = Inr ru \<and> new_URL parse a = Inr au \<longrightarrow>
      getEndpointsForEmr parse statics EPIC = Inr \<lparr>token = tu, r4 = ru, auth = au\<rparr>)"
  by (simp add: getEndpointsForEmr_def getEndpoints_def constructEndpoints_all_defined)

theorem getEndpointsForEmr_lookup_witness:
  "TOKEN_ENDPOINT \<lparr>TOKEN_ENDPOINT = Some ''https://epic.test/oauth2/token'',
        R4_ENDPOINT = Some ''https://epic.test/api/FHIR/R4'',
        AUTHORIZE_ENDPOINT = Some ''https://epic.test/oauth2/authorize''\<rparr> = Some ''https://epic.test/oauth2/token''
   \<and> new_URL Inr ''https://epic.test/oauth2/token'' = Inr ''https://epic.test/oauth2/token''
   \<and> new_URL Inr ''https://epic.test/api/FHIR/R4'' = Inr ''https://epic.test/api/FHIR/R4''
   \<and> new_URL Inr ''https://epic.test/oauth2/authorize'' = Inr ''https://epic.test/oauth2/authorize''
   \<and> getEndpointsForEmr Inr
        (\<lambda>_. \<lparr>TOKEN_ENDPOINT = Some ''https://epic.test/oauth2/token'',
               R4_ENDPOINT = Some ''https://epic.test/api/FHIR/R4'',
               AUTHORIZE_ENDPOINT = Some ''https://epic.test/oauth2/authorize''\<rparr>) EPIC
      = Inr \<lparr>token = ''https://epic.test/oauth2/token'', r4 = ''https://epic.test/api/FHIR/R4'',
             auth = ''https://epic.test/oauth2/authorize''\<rparr>"
  using getEndpointsForEmr_lookup
    [of Inr "\<lambda>_. \<lparr>TOKEN_ENDPOINT = Some ''https://epic.test/oauth2/token'',
               R4_ENDPOINT = Some ''https://epic.test/api/FHIR/R4'',
               AUTHORIZE_ENDPOINT = Some ''https://epic.test/oauth2/authorize''\<rparr>"
        "''https://epic.test/oauth2/token''" "''https://epic.test/api/FHIR/R4''"
        "''https://epic.test/oauth2/authorize''"
        "''https://epic.test/oauth2/token''" "''https://epic.test/api/FHIR/R4''"
        "''https://epic.test/oauth2/authorize''"]
  by (simp add: new_URL_def)

section \<open>Properties of the context hydrator\<close>

lemma spread_Nil [simp]: "spread target [] = target"
  by (simp add: spread_def)

lemma spread_single [simp]: "spread target [(k, v)] = AList.update k v target"
  by (simp add: spread_def)

lemma getIDfromObject_Some:
  "i \<noteq> [] \<Longrightarrow> getIDfromObject (Some i) = Inr i"
  by (simp add: getIDfromObject_def)

lemma getIDfromObject_empty:
  "objectWithId = None \<or> objectWithId = Some [] \<Longrightarrow> getIDfromObject objectWithId = Inl (Error ''id not found'')"
  by (auto simp: getIDfromObject_def)


lemma hydrateResource_neither_present:
  assumes "\<not> has_key ''subject'' resource" "\<not> has_key ''encounter'' resource"
    and "patient_id s = Some pid" "pid \<noteq> []" "encounter_id s = Some eid" "eid \<noteq> []"
  shows "hydrateResource now s resource =
     Inr (AList.update ''context''
            (JObj [(''encounter'', JArr [JObj [(''reference'', JStr (''Encounter/'' @ eid))]]),
                   (''period'', JObj [(''start'', JStr now), (''end'', JStr now)])])
          (AList.update ''subject'' (JObj [(''reference'', JStr (''Patient/'' @ pid))]) resource))"
  using assms
  by (simp add: hydrateResource_def createPatientSubject_def createContext_def
      createEncounterReferenceArray_def createEncounterReference_def createPeriod_def
      getIDfromObject_Some)

lemma hydrateResource_keeps_fields:
  assumes "hydrateResource now s resource = Inr hydrated"
    and "k \<noteq> ''context''" and "map_of resource k = Some v"
  shows "map_of hydrated k = Some v"
proof -
  obtain sf cf where sf: "(if has_key ''subject'' resource then Inr [] else createPatientSubject s) = Inr sf"
    and cf: "(if has_key ''encounter'' resource then Inr [] else createContext now s) = Inr cf"
    and h: "hydrated = spread (spread resource sf) cf"
    using assms(1) by (auto simp: hydrateResource_def split: sum.splits)
  have sf_cases: "sf = [] \<or> (\<exists>x. sf = [(''subject'', x)] \<and> \<not> has_key ''subject'' resource)"
    using sf by (auto simp: createPatientSubject_def split: if_splits sum.splits)
  have cf_cases: "cf = [] \<or> (\<exists>x. cf = [(''context'', x)])"
    using cf by (auto simp: createContext_def split: if_splits sum.splits)
  have "k \<noteq> ''subject'' \<or> sf = []"
    using sf_cases assms(3) by (auto simp: has_key_def)
  then have "map_of (spread resource sf) k = Some v"
    using sf_cases assms(3) by (auto simp: update_conv')
  then show ?thesis
    using cf_cases assms(2) h by (auto simp: update_conv')
qed

text \<open>
  Claim C2. The hydrator should never overwrite a field the resource already has, as
  its \<open>subject\<close> path does: the guard of that path is on the key it writes. The path
  for the encounter guards on the key \<open>encounter\<close> and writes the key \<open>context\<close>.
  Evaluated on a resource that has a \<open>context\<close> and no \<open>encounter\<close>, the code returns
  the resource with the \<open>context\<close> of the caller replaced by the one built from the
  session.
\<close>

theorem hydrateResource_overwrites_context:
  "map_of [(''resourceType'', JStr ''DocumentReference''),
           (''context'', JObj [(''sourcePatientInfo'', JObj [(''reference'', JStr ''Patient/other'')])])]
      ''context''
     = Some (JObj [(''sourcePatientInfo'', JObj [(''reference'', JStr ''Patient/other'')])])
   \<and> hydrateResource ''2024-05-01T10:00:00.000Z'' example_session
        [(''resourceType'', JStr ''DocumentReference''),
         (''context'', JObj [(''sourcePatientInfo'', JObj [(''reference'', JStr ''Patient/other'')])])]
     = Inr [(''resourceType'', JStr ''DocumentReference''),
            (''context'',
               JObj [(''encounter'', JArr [JObj [(''reference'', JStr ''Encounter/e1'')]]),
                     (''period'', JObj [(''start'', JStr ''2024-05-01T10:00:00.000Z''),
                                        (''end'', JStr ''2024-05-01T10:00:00.000Z'')])]),
            (''subject'', JObj [(''reference'', JStr ''Patient/p1'')])]"
  by (simp add: hydrateResource_def has_key_def createPatientSubject_def createContext_def
      createEncounterReferenceArray_def createEncounterReference_def createPeriod_def
      getIDfromObject_def example_session_def)

section \<open>Properties of \<open>create\<close>\<close>

lemma hydrateResource_missing_id:
  assumes "(\<not> has_key ''subject'' t \<and> (patient_id s = None \<or> patient_id s = Some []))
         \<or> (\<not> has_key ''encounter'' t \<and> (encounter_id s = None \<or> encounter_id s = Some []))"
  shows "hydrateResource now s t = Inl (Error ''id not found'')"
proof (cases "\<not> has_key ''subject'' t \<and> (patient_id s = None \<or> patient_id s = Some [])")
  case True
  then have "createPatientSubject s = Inl (Error ''id not found'')"
    by (auto simp: createPatientSubject_def getIDfromObject_def)
  with True show ?thesis by (simp add: hydrateResource_def)
next
  case False
  with assms have enc: "\<not> has_key ''encounter'' t"
    and eid: "encounter_id s = None \<or> encounter_id s = Some []" by auto
  from eid have "createContext now s = Inl (Error ''id not found'')"
    by (auto simp: createContext_def createEncounterReferenceArray_def
        createEncounterReference_def getIDfromObject_def)
  with enc show ?thesis
    by (auto simp: hydrateResource_def createPatientSubject_def getIDfromObject_def
        split: sum.splits option.splits)
qed

text \<open>
  Claim C7. When an identifier that hydration asks the session for is empty, the
  patient's for a resource without \<open>subject\<close> or the encounter's for a resource
  without \<open>encounter\<close>, \<open>create\<close> fails with the error "id not found" and the list of
  calls to the session's \<open>create\<close> is empty: the failure comes before any network
  call. The user's identifier is asked for by \<open>createReferenceArrayAuthor\<close> only,
  which fails in the same way and has no access to the network.
\<close>

theorem create_missing_identifier:
  "(toFhirClient resource = Inr t
      \<and> ((\<not> has_key ''subject'' t \<and> (patient_id s = None \<or> patient_id s = Some []))
         \<or> (\<not> has_key ''encounter'' t \<and> (encounter_id s = None \<or> encounter_id s = Some []))) \<longrightarrow>
     create toFhirClient toR4Fhir now s resource additionalHeaders = (Inl (Error ''id not found''), []))
   \<and> (user_id s = None \<or> user_id s = Some [] \<longrightarrow>
     createReferenceArrayAuthor s = Inl (Error ''id not found''))"
proof (intro conjI impI)
  assume a: "toFhirClient resource = Inr t
      \<and> ((\<not> has_key ''subject'' t \<and> (patient_id s = None \<or> patient_id s = Some []))
         \<or> (\<not> has_key ''encounter'' t \<and> (encounter_id s = None \<or> encounter_id s = Some [])))"
  then have "hydrateResource now s t = Inl (Error ''id not found'')"
    using hydrateResource_missing_id [of t s now] by blast
  with a show "create toFhirClient toR4Fhir now s resource additionalHeaders = (Inl (Error ''id not found''), [])"
    by (simp add: create_def create_with_def)
next
  assume "user_id s = None \<or> user_id s = Some []"
  then show "createReferenceArrayAuthor s = Inl (Error ''id not found'')"
    by (auto simp: createReferenceArrayAuthor_def getIDfromObject_def)
qed

theorem create_missing_identifier_witness:
  "toFhirClientType [(''resourceType'', JStr ''Observation'')] = Inr [(''resourceType'', JStr ''Observation'')]
   \<and> \<not> has_key ''subject'' [(''resourceType'', JStr ''Observation'')]
   \<and> patient_id (example_session\<lparr>patient_id := Some ''''\<rparr>) = Some ''''
   \<and> create toFhirClientType toR4FhirType ''2024-05-01T10:00:00.000Z''
        (example_session\<lparr>patient_id := Some ''''\<rparr>) [(''resourceType'', JStr ''Observation'')] None
      = (Inl (Error ''id not found''), [])
   \<and> user_id (example_session\<lparr>user_id := None\<rparr>) = None
   \<and> createReferenceArrayAuthor (example_session\<lparr>user_id := None\<rparr>) = Inl (Error ''id not found'')"
proof -
  let ?obs = "[(''resourceType'', JStr ''Observation'')]"
  have t: "toFhirClientType ?obs = Inr ?obs"
    by (simp add: toFhirClientType_def has_key_def)
  have k: "\<not> has_key ''subject'' ?obs" by (simp add: has_key_def)
  have p: "patient_id (example_session\<lparr>patient_id := Some ''''\<rparr>) = Some ''''" by simp
  have u: "user_id (example_session\<lparr>user_id := None\<rparr>) = None" by simp
  show ?thesis
    using t k p u
      create_missing_identifier
        [of toFhirClientType ?obs ?obs "example_session\<lparr>patient_id := Some ''''\<rparr>"
            toR4FhirType "''2024-05-01T10:00:00.000Z''" None]
      create_missing_identifier
        [of _ _ _ "example_session\<lparr>user_id := None\<rparr>"]
    by blast
qed

lemma create_with_throws:
  assumes "toFhirClient resource = Inr transformed"
    and "hydrate now s transformed = Inr hydrated"
    and "create_op s hydrated (createOptions additionalHeaders) = Throws thrown"
  shows "create_with hydrate toFhirClient toR4Fhir now s resource additionalHeaders =
     (Inl (Rejection thrown), [(hydrated, createOptions additionalHeaders)])"
  using assms by (simp add: create_with_def Let_def)




text \<open>
  For the record, what \<open>create\<close> gives when the session answers: the response
  through the transformer, or, for a response with no \<open>resourceType\<close>, the error of
  the \<open>then\<close> handler wrapped by the same \<open>catch\<close>. And on a CernerClient, as the
  two files stand, the hydration never gets to the session: the override is given no
  second argument.
\<close>

lemma create_result_of_response:
  assumes "toFhirClient resource = Inr transformed"
    and "hydrate now s transformed = Inr hydrated"
    and "create_op s hydrated (createOptions additionalHeaders) = Resolves response"
  shows "create_with hydrate toFhirClient toR4Fhir now s resource additionalHeaders =
     (if falsy (resourceType response)
      then Inl (Error ''It failed with:Error: Resource [object Object], must have a resource type.'')
      else toR4Fhir response,
      [(hydrated, createOptions additionalHeaders)])"
  using assms by (simp add: create_with_def Let_def checkResourceType_def)

lemma CernerClient_create_no_call:
  "snd (CernerClient_create toFhirClient toR4Fhir now s resource additionalHeaders) = []"
  by (simp add: CernerClient_create_def create_with_def CernerClient_hydrateResource_def
      split: sum.splits)

section \<open>Properties of \<open>getPractitionerRead\<close>\<close>

text \<open>
  Claim C9. When the user resource the session resolves to has a \<open>resourceType\<close>
  other than "Practitioner", \<open>getPractitionerRead\<close> fails with the error
  "User is Not a Practitioner" and returns no entity. When it is "Practitioner", the
  result is that entity passed through the transformer, which with the transformer of
  section 4.3 is the entity itself.
\<close>

theorem getPractitionerRead_checks_resourceType:
  "(user_read s = Inr user \<and> resourceType user \<noteq> JStr ''Practitioner'' \<longrightarrow>
      getPractitionerRead toR4Fhir s = Inl (Error ''User is Not a Practitioner''))
   \<and> (user_read s = Inr user \<and> resourceType user = JStr ''Practitioner'' \<longrightarrow>
      getPractitionerRead toR4Fhir s = toR4Fhir user
      \<and> getPractitionerRead toR4FhirType s = Inr user)"
  by (auto simp: getPractitionerRead_def getUserRead_def isPractitioner_def toR4FhirType_def
      has_key_def resourceType_def split: option.splits)

theorem getPractitionerRead_checks_resourceType_witness:
  "user_read (example_session\<lparr>user_read := Inr [(''resourceType'', JStr ''Patient''), (''id'', JStr ''p1'')]\<rparr>)
      = Inr [(''resourceType'', JStr ''Patient''), (''id'', JStr ''p1'')]
   \<and> resourceType [(''resourceType'', JStr ''Patient''), (''id'', JStr ''p1'')] \<noteq> JStr ''Practitioner''
   \<and> getPractitionerRead toR4FhirType
        (example_session\<lparr>user_read := Inr [(''resourceType'', JStr ''Patient''), (''id'', JStr ''p1'')]\<rparr>)
      = Inl (Error ''User is Not a Practitioner'')
   \<and> user_read example_session = Inr [(''resourceType'', JStr ''Practitioner''), (''id'', JStr ''u1'')]
   \<and> resourceType [(''resourceType'', JStr ''Practitioner''), (''id'', JStr ''u1'')] = JStr ''Practitioner''
   \<and> getPractitionerRead toR4FhirType example_session
      = Inr [(''resourceType'', JStr ''Practitioner''), (''id'', JStr ''u1'')]"
proof -
  let ?pat = "[(''resourceType'', JStr ''Patient''), (''id'', JStr ''p1'')]"
  let ?pra = "[(''resourceType'', JStr ''Practitioner''), (''id'', JStr ''u1'')]"
  have r1: "user_read (example_session\<lparr>user_read := Inr ?pat\<rparr>) = Inr ?pat" by simp
  have t1: "resourceType ?pat \<noteq> JStr ''Practitioner''" by (simp add: resourceType_def)
  have r2: "user_read example_session = Inr ?pra" by (simp add: example_session_def)
  have t2: "resourceType ?pra = JStr ''Practitioner''" by (simp add: resourceType_def)
  show ?thesis
    using r1 t1 r2 t2
      getPractitionerRead_checks_resourceType
        [of "example_session\<lparr>user_read := Inr ?pat\<rparr>" ?pat toR4FhirType]
      getPractitionerRead_checks_resourceType
        [of example_session ?pra toR4FhirType]
    by blast
qed

section \<open>Properties of the client factory\<close>

text \<open>The factory's own resolver yields one of four tags.\<close>

lemma ClientFactory_getEMRType_range:
  "ClientFactory_getEMRType session \<in> {CERNER, SMART, EPIC, NONE}"
  by (simp add: ClientFactory_getEMRType_def)

text \<open>
  Claim C10. For a session whose vendor the factory resolves to a tag other than
  \<open>CERNER\<close> and \<open>EPIC\<close>, which leaves \<open>SMART\<close> and \<open>NONE\<close>, \<open>createEMRClient\<close>
  returns an EpicClient bound to that session.
\<close>

theorem createEMRClient_defaults_to_EpicClient:
  assumes "ClientFactory_getEMRType session \<noteq> CERNER"
    and "ClientFactory_getEMRType session \<noteq> EPIC"
  shows "createEMRClient (Inr session) = Inr (EpicClient session)"
  using assms by (simp add: createEMRClient_def split: EMR.splits)

theorem createEMRClient_defaults_to_EpicClient_witness:
  "ClientFactory_getEMRType example_session = SMART
   \<and> createEMRClient (Inr example_session) = Inr (EpicClient example_session)
   \<and> ClientFactory_getEMRType (example_session\<lparr>serverUrl := ''https://fhir.example.org/r4''\<rparr>) = NONE
   \<and> createEMRClient (Inr (example_session\<lparr>serverUrl := ''https://fhir.example.org/r4''\<rparr>))
      = Inr (EpicClient (example_session\<lparr>serverUrl := ''https://fhir.example.org/r4''\<rparr>))"
proof -
  have smart: "ClientFactory_getEMRType example_session = SMART"
    by (simp add: ClientFactory_getEMRType_def example_session_def)
  have none: "ClientFactory_getEMRType (example_session\<lparr>serverUrl := ''https://fhir.example.org/r4''\<rparr>) = NONE"
    by (simp add: ClientFactory_getEMRType_def)
  show ?thesis
    using smart none
      createEMRClient_defaults_to_EpicClient [of example_session]
      createEMRClient_defaults_to_EpicClient
        [of "example_session\<lparr>serverUrl := ''https://fhir.example.org/r4''\<rparr>"]
    by simp
qed

section \<open>Properties of the resource transformer\<close>

text \<open>
  Claim C5. For every canonical resource that has a \<open>resourceType\<close>, transforming it
  to the session's shape and back gives the resource again.
\<close>

theorem transformer_round_trip:
  assumes "has_key ''resourceType'' r"
  shows "roundTrip r = Inr r"
  using assms by (simp add: roundTrip_def toFhirClientType_def toR4FhirType_def)

theorem transformer_round_trip_witness:
  "has_key ''resourceType'' [(''resourceType'', JStr ''Observation''), (''status'', JStr ''final'')]
   \<and> roundTrip [(''resourceType'', JStr ''Observation''), (''status'', JStr ''final'')]
     = Inr [(''resourceType'', JStr ''Observation''), (''status'', JStr ''final'')]"
proof -
  have k: "has_key ''resourceType'' [(''resourceType'', JStr ''Observation''), (''status'', JStr ''final'')]"
    by (simp add: has_key_def)
  show ?thesis using k transformer_round_trip [OF k] by simp
qed

end
